theory Spec2Isabelle
  imports Main
begin

section \<open>The provisioning script \<open>setup_vm.py\<close>\<close>

text \<open>
  The script is one linear procedure that prints banners and calls the operating system:
  \<open>subprocess.run\<close>, \<open>shutil.move\<close>, \<open>shutil.rmtree\<close> and \<open>os.remove\<close>. The model records
  every such call, in order, as an event. What a call does is decided by a world: whether
  the call raises (a missing file for \<open>os.remove\<close>, a missing executable for
  \<open>subprocess.run\<close>) and which exit status the launched process returns. An exception is
  never caught in the script, so it ends the run.

  Python names that begin with an underscore lose it. Strings are lists of characters and
  are taken to be printable ASCII. The parsed command line, the user name read from the
  password database and the value loaded from \<open>python_versions.yaml\<close> are inputs.
\<close>

subsection \<open>Events, worlds and the effect monad\<close>

datatype event =
    Print string
  | Run "string list" "string option"
  | Move string string
  | Rmtree string
  | Remove string

datatype error = OSError

record world =
  raises :: "event list \<Rightarrow> event \<Rightarrow> bool"
  returncode :: "event list \<Rightarrow> event \<Rightarrow> int"

type_synonym 'a io = "world \<Rightarrow> event list \<Rightarrow> (error + 'a) \<times> event list"

definition io_return :: "'a \<Rightarrow> 'a io" where
  "io_return x = (\<lambda>w h. (Inr x, h))"

definition io_bind :: "'a io \<Rightarrow> ('a \<Rightarrow> 'b io) \<Rightarrow> 'b io" where
  "io_bind m f = (\<lambda>w h. case m w h of
       (Inl e, h') \<Rightarrow> (Inl e, h')
     | (Inr x, h') \<Rightarrow> f x w h')"

definition io_then :: "'a io \<Rightarrow> 'b io \<Rightarrow> 'b io" where
  "io_then m k = io_bind m (\<lambda>_. k)"

text \<open>A block of statements, a conditional statement without \<open>else\<close>, and a \<open>for\<close> loop.\<close>

fun io_seq :: "unit io list \<Rightarrow> unit io" where
  "io_seq [] = io_return ()"
| "io_seq (p # ps) = io_then p (io_seq ps)"

definition io_when :: "bool \<Rightarrow> unit io \<Rightarrow> unit io" where
  "io_when b p = (if b then p else io_return ())"

definition io_for :: "'a list \<Rightarrow> ('a \<Rightarrow> unit io) \<Rightarrow> unit io" where
  "io_for xs body = io_seq (map body xs)"

text \<open>
  The library calls. \<open>py_print s e\<close> is \<open>print(s, end=e)\<close>; it writes \<open>s\<close> followed by
  \<open>e\<close> and does not fail. \<open>call\<close> issues one operating-system call: the call is recorded,
  then either raises or returns the status the world gives.
\<close>

definition newline :: string where
  "newline = [CHR 0x0A]"

definition py_print :: "string \<Rightarrow> string \<Rightarrow> unit io" where
  "py_print s e = (\<lambda>w h. (Inr (), h @ [Print (s @ e)]))"

definition call :: "event \<Rightarrow> int io" where
  "call e = (\<lambda>w h.
     if raises w h e then (Inl OSError, h @ [e])
     else (Inr (returncode w h e), h @ [e]))"

definition subprocess_run :: "string list \<Rightarrow> string option \<Rightarrow> int io" where
  "subprocess_run args cwd = call (Run args cwd)"

definition shutil_move :: "string \<Rightarrow> string \<Rightarrow> unit io" where
  "shutil_move origin dest = io_bind (call (Move origin dest)) (\<lambda>_. io_return ())"

definition shutil_rmtree :: "string \<Rightarrow> unit io" where
  "shutil_rmtree d = io_bind (call (Rmtree d)) (\<lambda>_. io_return ())"

definition os_remove :: "string \<Rightarrow> unit io" where
  "os_remove f = io_bind (call (Remove f)) (\<lambda>_. io_return ())"

subsection \<open>String helpers of Python\<close>

text \<open>\<open>sep.join(xs)\<close>.\<close>

fun join :: "string \<Rightarrow> string list \<Rightarrow> string" where
  "join sep [] = []"
| "join sep [x] = x"
| "join sep (x # y # ys) = x @ sep @ join sep (y # ys)"

text \<open>
  \<open>s.center(width)\<close>: a string at least as long as the width is returned as it is;
  otherwise it is padded with spaces, the odd space going to the left when both the
  margin and the width are odd.
\<close>

definition center :: "string \<Rightarrow> nat \<Rightarrow> string" where
  "center s width =
     (if width \<le> length s then s
      else let marg = width - length s;
               left = marg div 2 + (if odd marg \<and> odd width then 1 else 0)
           in replicate left CHR '' '' @ s @ replicate (marg - left) CHR '' '')"

text \<open>
  \<open>repr(s)\<close> of a string, as the \<open>{name=}\<close> form of an f-string prints it: single quotes
  unless the string holds a single quote and no double quote; the backslash, the chosen
  quote and the control characters are escaped.
\<close>

definition hex_digit :: "nat \<Rightarrow> char" where
  "hex_digit n = ''0123456789abcdef'' ! (n mod 16)"

definition repr_char :: "char \<Rightarrow> char \<Rightarrow> string" where
  "repr_char q c =
     (if c = CHR 0x5C then [CHR 0x5C, CHR 0x5C]
      else if c = q then [CHR 0x5C, q]
      else if c = CHR 0x0A then [CHR 0x5C, CHR ''n'']
      else if c = CHR 0x0D then [CHR 0x5C, CHR ''r'']
      else if c = CHR 0x09 then [CHR 0x5C, CHR ''t'']
      else if (of_char c :: nat) < 32 \<or> (of_char c :: nat) = 127
        then [CHR 0x5C, CHR ''x'', hex_digit ((of_char c :: nat) div 16), hex_digit (of_char c)]
      else [c])"

definition repr :: "string \<Rightarrow> string" where
  "repr s =
     (let q = (if CHR 0x27 \<in> set s \<and> CHR 0x22 \<notin> set s then CHR 0x22 else CHR 0x27)
      in [q] @ concat (map (repr_char q) s) @ [q])"

subsection \<open>Module constants\<close>

text \<open>
  \<open>USER_NAME\<close> is read from the password database when the module is loaded; it is the
  parameter \<open>u\<close> of everything below. \<open>USER_HOME\<close> is derived from it.
\<close>

definition USER_HOME :: "string \<Rightarrow> string" where
  "USER_HOME u = ''/home/'' @ u"

subsection \<open>The helpers\<close>

definition print_line :: "string \<Rightarrow> unit io" where
  "print_line s =
     io_then (py_print (replicate 79 CHR ''='') newline)
    (io_then (py_print (center s 79) newline)
             (py_print (replicate 79 CHR ''='') (newline @ newline)))"

text \<open>A command is a string or a tuple of strings; the code tells them apart by type.\<close>

datatype cmd = Str string | Tup "string list"

fun preprocess_cmd_and_print :: "cmd \<Rightarrow> string list \<times> string" where
  "preprocess_cmd_and_print (Str c) = ([c], c)"
| "preprocess_cmd_and_print (Tup c) = (c, join '' '' c)"

definition sudo_apt_install :: "cmd \<Rightarrow> unit io" where
  "sudo_apt_install c =
     (case preprocess_cmd_and_print c of (cmd', print_cmd) \<Rightarrow>
        io_then (print_line (''sudo apt install '' @ print_cmd))
          (io_bind (subprocess_run ([''sudo'', ''apt'', ''install''] @ cmd' @ [''-y'']) None)
             (\<lambda>_. io_return ())))"

definition sudo_bash_cmd :: "string \<Rightarrow> unit io" where
  "sudo_bash_cmd c =
     io_then (print_line (''bash '' @ c))
       (io_bind (subprocess_run [''bash'', c] None) (\<lambda>_. io_return ()))"

record Repo =
  owner :: string
  repo :: string
  destination :: "string option"

text \<open>\<open>if self.destination\<close> is Python's truth test: \<open>None\<close> and the empty string are false.\<close>

definition truthy :: "string option \<Rightarrow> bool" where
  "truthy d = (case d of None \<Rightarrow> False | Some s \<Rightarrow> s \<noteq> [])"

definition Repo_str :: "Repo \<Rightarrow> string" where
  "Repo_str r = owner r @ ''/'' @ repo r"

definition get_clone_cmd :: "Repo \<Rightarrow> string list" where
  "get_clone_cmd r =
     (if truthy (destination r)
      then [''git'', ''clone'', ''git@github.com:'' @ Repo_str r, the (destination r)]
      else [''git'', ''clone'', ''git@github.com:'' @ Repo_str r])"

definition get_print_line :: "Repo \<Rightarrow> string" where
  "get_print_line r =
     (if truthy (destination r)
      then ''cloning repo '' @ Repo_str r @ '' to '' @ the (destination r)
      else ''cloning repo '' @ Repo_str r)"

definition clone_github_repo :: "Repo \<Rightarrow> unit io" where
  "clone_github_repo r =
     io_then (print_line (get_print_line r))
       (io_bind (subprocess_run (get_clone_cmd r) None) (\<lambda>_. io_return ()))"

definition move_file :: "string \<Rightarrow> string \<Rightarrow> unit io" where
  "move_file origin dest =
     io_then (print_line (''moving from '' @ origin @ '' to '' @ dest))
             (shutil_move origin dest)"

definition delete_directory :: "string \<Rightarrow> unit io" where
  "delete_directory directory =
     io_then (print_line (''deleting directory='' @ repr directory))
             (shutil_rmtree directory)"

definition delete_file :: "string \<Rightarrow> unit io" where
  "delete_file file =
     io_then (print_line (''deleting file='' @ repr file))
             (os_remove file)"

definition run_python :: "cmd \<Rightarrow> string option \<Rightarrow> unit io" where
  "run_python c cwd =
     (case preprocess_cmd_and_print c of (cmd', print_cmd) \<Rightarrow>
        io_then (print_line (''running python3 '' @ print_cmd))
          (io_bind (subprocess_run ([''python3''] @ cmd') cwd) (\<lambda>_. io_return ())))"

definition execute_cmd :: "cmd \<Rightarrow> string option \<Rightarrow> unit io" where
  "execute_cmd c cwd =
     (case preprocess_cmd_and_print c of (cmd', print_cmd) \<Rightarrow>
        io_then (print_line (''execute cmd: '' @ print_cmd))
          (io_bind (subprocess_run cmd' cwd) (\<lambda>_. io_return ())))"

subsection \<open>The top-level procedure\<close>

text \<open>The result of \<open>parser.parse_args()\<close>: three flags, each false unless given.\<close>

record args =
  install_guest_edition :: bool
  testing :: bool
  clean_up :: bool

text \<open>
  \<open>main\<close>, statement by statement. \<open>python_versions\<close> is the list that
  \<open>yaml.safe_load\<close> returned.
\<close>

definition main :: "string \<Rightarrow> string list \<Rightarrow> args \<Rightarrow> int io" where
  \<open>main u python_versions a =
     io_then (io_seq [
       io_when (clean_up a) (io_seq [
         delete_file (USER_HOME u @ ''/.vimrc_cl_install''),
         delete_file (USER_HOME u @ ''/.vimrc''),
         delete_directory (USER_HOME u @ ''/opt''),
         delete_file ''/tmp/virtualenv.pyz'',
         execute_cmd (Tup [''sudo'', ''rm'', ''/bin/virtualenv'']) None,
         execute_cmd (Tup [''sudo'', ''rm'', ''-rf'', USER_HOME u @ ''/.vim'']) None]),

       execute_cmd (Tup [''sudo'', ''apt'', ''upgrade'', ''-y'']) None,
       execute_cmd (Tup [''sudo'', ''apt'', ''update'', ''-y'']) None,

       execute_cmd (Tup [''git'', ''config'', ''--global'', ''user.name'', ''"SiQube"'']) None,
       execute_cmd (Tup [''git'', ''config'', ''--global'', ''user.email'',
                         ''"reich.davidr@gmail.com"'']) None,

       sudo_apt_install (Str ''vim''),
       clone_github_repo \<lparr>owner = ''siqube'', repo = ''scratch'', destination = None\<rparr>,
       move_file ''scratch/.vimrc_cl_install'' (USER_HOME u),
       execute_cmd (Tup [''mkdir'', ''-p'', ''/etc/apt/keyrings'']) None,
       sudo_apt_install (Str ''cmake''),
       sudo_apt_install (Str ''mono-complete''),
       sudo_apt_install (Str ''golang''),
       sudo_apt_install (Str ''nodejs''),
       sudo_apt_install (Str ''openjdk-17-jdk''),
       sudo_apt_install (Str ''openjdk-17-jre''),
       sudo_apt_install (Str ''npm''),
       execute_cmd (Tup [''sudo'', ''mkdir'', ''-p'', USER_HOME u @ ''/.vim/bundle'']) None,
       execute_cmd (Tup [''sudo'', ''chmod'', ''777'', USER_HOME u @ ''/.vim'']) None,
       execute_cmd (Tup [''sudo'', ''chmod'', ''777'', USER_HOME u @ ''/.vim/bundle'']) None,
       clone_github_repo
         \<lparr>owner = ''ycm-core'', repo = ''YouCompleteMe'',
          destination = Some (USER_HOME u @ ''/.vim/bundle/YouCompleteMe'')\<rparr>,
       execute_cmd (Tup [''git'', ''submodule'', ''update'', ''--init'', ''--recursive''])
         (Some (USER_HOME u @ ''/.vim/bundle/YouCompleteMe'')),
       sudo_apt_install (Str ''python3-dev''),
       run_python (Tup [''install.py'', ''--all''])
         (Some (USER_HOME u @ ''/.vim/bundle/YouCompleteMe'')),
       clone_github_repo
         \<lparr>owner = ''VundleVim'', repo = ''Vundle.vim'',
          destination = Some (USER_HOME u @ ''/.vim/bundle/Vundle.vim'')\<rparr>,
       execute_cmd (Tup [''vim'', ''-u'', USER_HOME u @ ''/.vimrc_cl_install'',
                         ''+PluginInstall'', ''+qall'']) None,
       move_file ''scratch/.vimrc'' (USER_HOME u),
       execute_cmd (Tup [''vim'', USER_HOME u @ ''/.vimrc'', ''+PluginInstall'', ''+qall'']) None,
       delete_directory ''scratch'',
       io_when (testing a) (io_seq [
         execute_cmd (Tup [''sudo'', ''rm'', ''-rf'', USER_HOME u @ ''/.vim'']) None,
         delete_file (USER_HOME u @ ''/.vimrc'')]),

       sudo_apt_install (Str ''perl''),
       sudo_apt_install (Str ''make''),
       sudo_apt_install (Str ''gcc''),
       sudo_apt_install (Str ''bzip2''),
       sudo_apt_install (Str ''curl''),
       sudo_apt_install (Str ''build-essential''),

       execute_cmd (Tup [''curl'', ''--location'', ''--output'', ''/tmp/virtualenv.pyz'',
                         ''https://bootstrap.pypa.io/virtualenv.pyz'']) None,
       run_python (Tup [''/tmp/virtualenv.pyz'', USER_HOME u @ ''/opt/venv'']) None,
       execute_cmd (Tup [USER_HOME u @ ''/opt/venv/bin/pip'', ''install'', ''virtualenv'']) None,
       execute_cmd (Tup [''sudo'', ''ln'', ''-s'', USER_HOME u @ ''/opt/venv/bin/virtualenv'',
                         ''/bin/virtualenv'']) None,

       io_when (testing a) (io_seq [
         delete_directory (USER_HOME u @ ''/opt''),
         delete_file ''/tmp/virtualenv.pyz'',
         execute_cmd (Tup [''sudo'', ''rm'', ''/bin/virtualenv'']) None]),

       sudo_apt_install (Str ''software-properties-common''),
       execute_cmd (Tup [''sudo'', ''add-apt-repository'', ''ppa:deadsnakes/ppa'', ''-y'']) None,
       io_for python_versions (\<lambda>python_version.
         sudo_apt_install (Str (''python'' @ python_version))),

       io_when (install_guest_edition a)
         (sudo_bash_cmd (''/media/'' @ u @ ''/VBox_GAs_7.0.12/autorun.sh''))])
     (io_return 0)\<close>

text \<open>
  The executor of a test: no call raises and every process exits with status 0. The
  command plan of a run is what \<open>main\<close> issues under it, banners left out.
\<close>

definition fake_executor :: world where
  "fake_executor = \<lparr>raises = (\<lambda>_ _. False), returncode = (\<lambda>_ _. 0)\<rparr>"

fun is_command :: "event \<Rightarrow> bool" where
  "is_command (Print _) = False"
| "is_command _ = True"

definition commands :: "event list \<Rightarrow> event list" where
  "commands t = filter is_command t"

definition main_plan :: "string \<Rightarrow> string list \<Rightarrow> args \<Rightarrow> event list" where
  "main_plan u vs a = commands (snd (main u vs a fake_executor []))"

subsection \<open>Straight-line runs\<close>

text \<open>
  The three lines \<open>print_line\<close> writes, and the replay of a list of events: a printed line
  is written, a call is issued and its result dropped. \<open>run r\<close> replays against the
  raising behaviour \<open>r\<close> alone, stopping at the first call that raises.
\<close>

definition banner :: "string \<Rightarrow> event list" where
  "banner s =
     [Print (replicate 79 CHR ''='' @ newline),
      Print (center s 79 @ newline),
      Print (replicate 79 CHR ''='' @ newline @ newline)]"

fun perform :: "event \<Rightarrow> unit io" where
  "perform (Print s) = py_print s []"
| "perform e = io_bind (call e) (\<lambda>_. io_return ())"

fun perform_all :: "event list \<Rightarrow> unit io" where
  "perform_all [] = io_return ()"
| "perform_all (e # es) = io_then (perform e) (perform_all es)"

fun run :: "(event list \<Rightarrow> event \<Rightarrow> bool) \<Rightarrow> event list \<Rightarrow> event list
    \<Rightarrow> (error + unit) \<times> event list" where
  "run r [] h = (Inr (), h)"
| "run r (e # es) h =
     (if is_command e \<and> r h e then (Inl OSError, h @ [e]) else run r es (h @ [e]))"

subsection \<open>The blocks of the command plan\<close>

definition cleanup_cmds :: "string \<Rightarrow> event list" where
  "cleanup_cmds u =
     [Remove (USER_HOME u @ ''/.vimrc_cl_install''),
      Remove (USER_HOME u @ ''/.vimrc''),
      Rmtree (USER_HOME u @ ''/opt''),
      Remove ''/tmp/virtualenv.pyz'',
      Run [''sudo'', ''rm'', ''/bin/virtualenv''] None,
      Run [''sudo'', ''rm'', ''-rf'', USER_HOME u @ ''/.vim''] None]"

definition update_cmds :: "event list" where
  "update_cmds =
     [Run [''sudo'', ''apt'', ''upgrade'', ''-y''] None,
      Run [''sudo'', ''apt'', ''update'', ''-y''] None]"

definition git_cmds :: "event list" where
  \<open>git_cmds =
     [Run [''git'', ''config'', ''--global'', ''user.name'', ''"SiQube"''] None,
      Run [''git'', ''config'', ''--global'', ''user.email'', ''"reich.davidr@gmail.com"'']
        None]\<close>

definition apt_install :: "string \<Rightarrow> event" where
  "apt_install pkg = Run [''sudo'', ''apt'', ''install'', pkg, ''-y''] None"

definition vim_cmds :: "string \<Rightarrow> event list" where
  "vim_cmds u =
     [apt_install ''vim'',
      Run [''git'', ''clone'', ''git@github.com:siqube/scratch''] None,
      Move ''scratch/.vimrc_cl_install'' (USER_HOME u),
      Run [''mkdir'', ''-p'', ''/etc/apt/keyrings''] None,
      apt_install ''cmake'',
      apt_install ''mono-complete'',
      apt_install ''golang'',
      apt_install ''nodejs'',
      apt_install ''openjdk-17-jdk'',
      apt_install ''openjdk-17-jre'',
      apt_install ''npm'',
      Run [''sudo'', ''mkdir'', ''-p'', USER_HOME u @ ''/.vim/bundle''] None,
      Run [''sudo'', ''chmod'', ''777'', USER_HOME u @ ''/.vim''] None,
      Run [''sudo'', ''chmod'', ''777'', USER_HOME u @ ''/.vim/bundle''] None,
      Run [''git'', ''clone'', ''git@github.com:ycm-core/YouCompleteMe'',
           USER_HOME u @ ''/.vim/bundle/YouCompleteMe''] None,
      Run [''git'', ''submodule'', ''update'', ''--init'', ''--recursive'']
        (Some (USER_HOME u @ ''/.vim/bundle/YouCompleteMe'')),
      apt_install ''python3-dev'',
      Run [''python3'', ''install.py'', ''--all'']
        (Some (USER_HOME u @ ''/.vim/bundle/YouCompleteMe'')),
      Run [''git'', ''clone'', ''git@github.com:VundleVim/Vundle.vim'',
           USER_HOME u @ ''/.vim/bundle/Vundle.vim''] None,
      Run [''vim'', ''-u'', USER_HOME u @ ''/.vimrc_cl_install'', ''+PluginInstall'', ''+qall'']
        None,
      Move ''scratch/.vimrc'' (USER_HOME u),
      Run [''vim'', USER_HOME u @ ''/.vimrc'', ''+PluginInstall'', ''+qall''] None,
      Rmtree ''scratch'']"

definition vim_removal_cmds :: "string \<Rightarrow> event list" where
  "vim_removal_cmds u =
     [Run [''sudo'', ''rm'', ''-rf'', USER_HOME u @ ''/.vim''] None,
      Remove (USER_HOME u @ ''/.vimrc'')]"

definition toolchain_cmds :: "event list" where
  "toolchain_cmds =
     [apt_install ''perl'', apt_install ''make'', apt_install ''gcc'',
      apt_install ''bzip2'', apt_install ''curl'', apt_install ''build-essential'']"

definition venv_cmds :: "string \<Rightarrow> event list" where
  "venv_cmds u =
     [Run [''curl'', ''--location'', ''--output'', ''/tmp/virtualenv.pyz'',
           ''https://bootstrap.pypa.io/virtualenv.pyz''] None,
      Run [''python3'', ''/tmp/virtualenv.pyz'', USER_HOME u @ ''/opt/venv''] None,
      Run [USER_HOME u @ ''/opt/venv/bin/pip'', ''install'', ''virtualenv''] None,
      Run [''sudo'', ''ln'', ''-s'', USER_HOME u @ ''/opt/venv/bin/virtualenv'',
           ''/bin/virtualenv''] None]"

definition venv_removal_cmds :: "string \<Rightarrow> event list" where
  "venv_removal_cmds u =
     [Rmtree (USER_HOME u @ ''/opt''),
      Remove ''/tmp/virtualenv.pyz'',
      Run [''sudo'', ''rm'', ''/bin/virtualenv''] None]"

definition ppa_cmds :: "event list" where
  "ppa_cmds =
     [apt_install ''software-properties-common'',
      Run [''sudo'', ''add-apt-repository'', ''ppa:deadsnakes/ppa'', ''-y''] None]"

definition python_install :: "string \<Rightarrow> event" where
  "python_install v = Run [''sudo'', ''apt'', ''install'', ''python'' @ v, ''-y''] None"

definition guest_cmd :: "string \<Rightarrow> event" where
  "guest_cmd u = Run [''bash'', ''/media/'' @ u @ ''/VBox_GAs_7.0.12/autorun.sh''] None"

text \<open>
  Steps 4 and 6 of the top-level procedure, as the specification describes them: the
  install block, torn down again when testing.
\<close>

definition editor_block :: "string \<Rightarrow> bool \<Rightarrow> event list" where
  "editor_block u t = vim_cmds u @ (if t then vim_removal_cmds u else [])"

definition virtualenv_block :: "string \<Rightarrow> bool \<Rightarrow> event list" where
  "virtualenv_block u t = venv_cmds u @ (if t then venv_removal_cmds u else [])"

text \<open>
  The sequence the specification gives for the command plan, its eight steps in order
  and nothing else; step 7 is one interpreter install for each entry of the list.
\<close>

definition claimed_plan :: "string \<Rightarrow> string list \<Rightarrow> args \<Rightarrow> event list" where
  "claimed_plan u vs a =
     (if clean_up a then cleanup_cmds u else [])
     @ update_cmds
     @ git_cmds
     @ editor_block u (testing a)
     @ toolchain_cmds
     @ virtualenv_block u (testing a)
     @ map python_install vs
     @ (if install_guest_edition a then [guest_cmd u] else [])"

subsection \<open>What a step deletes\<close>

text \<open>
  The paths a step deletes: the argument of \<open>os.remove\<close> and \<open>shutil.rmtree\<close>, and the
  operands of a \<open>sudo rm\<close>. A step removes a file when it deletes the file itself or a
  directory above it.
\<close>

fun deleted_paths :: "event \<Rightarrow> string list" where
  "deleted_paths (Remove f) = [f]"
| "deleted_paths (Rmtree d) = [d]"
| "deleted_paths (Run (x # y # operands) cwd) =
     (if x = ''sudo'' \<and> y = ''rm'' then filter (\<lambda>p. take 1 p \<noteq> ''-'') operands else [])"
| "deleted_paths _ = []"

definition removes :: "string \<Rightarrow> event \<Rightarrow> bool" where
  "removes f e = list_ex (\<lambda>p. p = f \<or> take (length p + 1) f = p @ ''/'') (deleted_paths e)"

text \<open>
  The verb of a \<open>sudo apt\<close> command. A step uninstalls when it is a \<open>sudo apt\<close> command
  whose verb takes packages away.
\<close>

fun apt_verb :: "event \<Rightarrow> string option" where
  "apt_verb (Run (x # y # verb # operands) cwd) =
     (if x = ''sudo'' \<and> y = ''apt'' then Some verb else None)"
| "apt_verb _ = None"

definition uninstalls :: "event \<Rightarrow> bool" where
  "uninstalls e = (apt_verb e = Some ''remove'' \<or> apt_verb e = Some ''purge''
     \<or> apt_verb e = Some ''autoremove'')"

section \<open>Every helper is a straight-line run\<close>

text \<open>
  Each helper prints its banner and issues one call whose result it drops, so it is the
  replay of a fixed list of events; blocks, conditionals and the loop preserve this.
\<close>

lemma perform_all_run: "perform_all es w h = run (raises w) es h"
proof (induction es arbitrary: h)
  case Nil
  show ?case by (simp add: io_return_def)
next
  case (Cons e es)
  show ?case
    by (cases e) (simp_all add: Cons io_then_def io_bind_def call_def py_print_def io_return_def)
qed

lemma run_append:
  "run r (xs @ ys) h = (case run r xs h of (Inl e, h') \<Rightarrow> (Inl e, h') | (Inr x, h') \<Rightarrow> run r ys h')"
  by (induction xs arbitrary: h) simp_all

lemma perform_all_append: "io_then (perform_all xs) (perform_all ys) = perform_all (xs @ ys)"
  by (intro ext) (simp add: io_then_def io_bind_def perform_all_run run_append split: prod.splits sum.splits)

declare perform_all.simps [simp del]

lemma print_line_banner: "print_line s = perform_all (banner s)"
  by (intro ext) (simp add: perform_all_run print_line_def banner_def io_then_def io_bind_def py_print_def io_return_def)

lemma call_perform: "is_command e \<Longrightarrow> io_bind (call e) (\<lambda>_. io_return ()) = perform_all [e]"
  by (intro ext) (simp add: perform_all_run io_bind_def io_return_def call_def)

lemma execute_cmd_events:
  "execute_cmd c cwd = perform_all (banner (''execute cmd: '' @ snd (preprocess_cmd_and_print c))
      @ [Run (fst (preprocess_cmd_and_print c)) cwd])"
  by (simp add: execute_cmd_def subprocess_run_def print_line_banner call_perform perform_all_append split: prod.splits)

lemma sudo_apt_install_events:
  "sudo_apt_install c = perform_all (banner (''sudo apt install '' @ snd (preprocess_cmd_and_print c))
      @ [Run ([''sudo'', ''apt'', ''install''] @ fst (preprocess_cmd_and_print c) @ [''-y'']) None])"
  by (simp add: sudo_apt_install_def subprocess_run_def print_line_banner call_perform perform_all_append split: prod.splits)

lemma run_python_events:
  "run_python c cwd = perform_all (banner (''running python3 '' @ snd (preprocess_cmd_and_print c))
      @ [Run (''python3'' # fst (preprocess_cmd_and_print c)) cwd])"
  by (simp add: run_python_def subprocess_run_def print_line_banner call_perform perform_all_append split: prod.splits)

lemma sudo_bash_cmd_events:
  "sudo_bash_cmd c = perform_all (banner (''bash '' @ c) @ [Run [''bash'', c] None])"
  by (simp add: sudo_bash_cmd_def subprocess_run_def print_line_banner call_perform perform_all_append)

lemma clone_github_repo_events:
  "clone_github_repo r = perform_all (banner (get_print_line r) @ [Run (get_clone_cmd r) None])"
  by (simp add: clone_github_repo_def subprocess_run_def print_line_banner call_perform perform_all_append)

lemma move_file_events:
  "move_file origin dest = perform_all (banner (''moving from '' @ origin @ '' to '' @ dest) @ [Move origin dest])"
  by (simp add: move_file_def shutil_move_def print_line_banner call_perform perform_all_append)

lemma delete_directory_events:
  "delete_directory d = perform_all (banner (''deleting directory='' @ repr d) @ [Rmtree d])"
  by (simp add: delete_directory_def shutil_rmtree_def print_line_banner call_perform perform_all_append)

lemma delete_file_events:
  "delete_file f = perform_all (banner (''deleting file='' @ repr f) @ [Remove f])"
  by (simp add: delete_file_def os_remove_def print_line_banner call_perform perform_all_append)

lemmas helper_events = execute_cmd_events sudo_apt_install_events run_python_events
  sudo_bash_cmd_events clone_github_repo_events move_file_events delete_directory_events
  delete_file_events

lemma io_seq_Nil_events: "io_seq [] = perform_all []"
  by (simp add: perform_all.simps)

lemma io_seq_Cons_events: "io_seq (perform_all xs # ps) = io_then (perform_all xs) (io_seq ps)"
  by simp

lemma io_when_events: "io_when b (perform_all xs) = perform_all (if b then xs else [])"
  by (simp add: io_when_def perform_all.simps)

lemma io_for_events:
  "(\<And>x. body x = perform_all (f x)) \<Longrightarrow> io_for xs body = perform_all (concat (map f xs))"
  by (induction xs) (simp_all add: io_for_def perform_all.simps(1) perform_all_append)

lemma commands_banner: "commands (banner s) = []"
  by (simp add: commands_def banner_def)

lemma commands_append: "commands (xs @ ys) = commands xs @ commands ys"
  by (simp add: commands_def)

lemma commands_Cons: "commands (e # es) = (if is_command e then e # commands es else commands es)"
  by (simp add: commands_def)

lemma commands_Nil: "commands [] = []"
  by (simp add: commands_def)

lemma commands_concat: "commands (concat xss) = concat (map commands xss)"
  by (induction xss) (simp_all add: commands_def)

lemma commands_if: "commands (if b then xs else ys) = (if b then commands xs else commands ys)"
  by simp

lemmas commands_simps = commands_banner commands_append commands_Cons commands_Nil commands_if


lemma io_for_perform_all:
  "io_for xs (\<lambda>x. perform_all (f x)) = perform_all (concat (map f xs))"
  by (rule io_for_events) (rule refl)

lemma commands_concat_steps:
  "commands (concat (map (\<lambda>v. banner (s v) @ [Run (c v) None]) vs)) = map (\<lambda>v. Run (c v) None) vs"
  by (induction vs) (simp_all add: commands_simps)

lemma then_return_trace:
  "snd (io_then (perform_all E) (io_return x) w h) = snd (run (raises w) E h)"
  by (simp add: io_then_def io_bind_def io_return_def perform_all_run split: prod.splits sum.splits)

lemma run_never: "(\<And>h e. \<not> r h e) \<Longrightarrow> run r es h = (Inr (), h @ es)"
  by (induction es arbitrary: h) simp_all

lemma run_fake: "run (raises fake_executor) es h = (Inr (), h @ es)"
  by (rule run_never) (simp add: fake_executor_def)

lemmas to_events = helper_events io_for_perform_all io_when_events io_seq_Nil_events
  io_seq_Cons_events perform_all_append

lemma main_straight: "\<exists>E. main u vs a = io_then (perform_all E) (io_return 0)"
  unfolding main_def
  apply (simp only: to_events)
  apply (rule exI)
  apply (rule refl)
  done

lemma main_plan_blocks:
  "main_plan u vs a =
     (if clean_up a then cleanup_cmds u else [])
     @ update_cmds @ git_cmds
     @ vim_cmds u @ (if testing a then vim_removal_cmds u else [])
     @ toolchain_cmds
     @ venv_cmds u @ (if testing a then venv_removal_cmds u else [])
     @ ppa_cmds @ map python_install vs
     @ (if install_guest_edition a then [guest_cmd u] else [])"
  unfolding main_plan_def main_def
  apply (simp only: to_events then_return_trace run_fake snd_conv append_Nil)
  apply (simp only: commands_append commands_if commands_banner commands_concat_steps append_Nil)
  apply (simp add: commands_Cons commands_Nil cleanup_cmds_def update_cmds_def git_cmds_def vim_cmds_def
      vim_removal_cmds_def toolchain_cmds_def venv_cmds_def venv_removal_cmds_def ppa_cmds_def
      guest_cmd_def apt_install_def python_install_def get_clone_cmd_def truthy_def Repo_str_def)
  done

text \<open>
  Runs in other worlds. The events of a run are an initial part of the events of the run
  under the test executor, up to and including the first call that raises; a world in
  which nothing raises gives the whole plan and the exit value 0.
\<close>

lemma run_prefix: "\<exists>k. snd (run r es h) = h @ take k es"
proof (induction es arbitrary: h)
  case Nil
  show ?case by simp
next
  case (Cons e es)
  show ?case
  proof (cases "is_command e \<and> r h e")
    case True
    have "snd (run r (e # es) h) = h @ take 1 (e # es)" using True by simp
    then show ?thesis by blast
  next
    case False
    from Cons [of "h @ [e]"] obtain k where "snd (run r es (h @ [e])) = (h @ [e]) @ take k es"
      by blast
    then have "snd (run r (e # es) h) = h @ take (Suc k) (e # es)" using False by auto
    then show ?thesis by blast
  qed
qed

lemma commands_take: "\<exists>j. commands (take k es) = take j (commands es)"
proof (induction es arbitrary: k)
  case Nil
  show ?case by (simp add: commands_def)
next
  case (Cons e es)
  show ?case
  proof (cases k)
    case 0
    have "commands (take k (e # es)) = take 0 (commands (e # es))" using 0 by (simp add: commands_def)
    then show ?thesis by blast
  next
    case (Suc k')
    from Cons [of k'] obtain j where j: "commands (take k' es) = take j (commands es)" by blast
    show ?thesis
    proof (cases "is_command e")
      case True
      have "commands (take k (e # es)) = take (Suc j) (commands (e # es))"
        using Suc True j by (simp add: commands_def)
      then show ?thesis by blast
    next
      case False
      have "commands (take k (e # es)) = take j (commands (e # es))"
        using Suc False j by (simp add: commands_def)
      then show ?thesis by blast
    qed
  qed
qed

lemma main_trace_prefix: "\<exists>j. commands (snd (main u vs a w [])) = take j (main_plan u vs a)"
proof -
  obtain E where E: "main u vs a = io_then (perform_all E) (io_return 0)"
    using main_straight by blast
  have plan: "main_plan u vs a = commands E"
    by (simp add: main_plan_def E then_return_trace run_fake)
  obtain k where "snd (run (raises w) E []) = [] @ take k E"
    using run_prefix by blast
  then have "commands (snd (main u vs a w [])) = commands (take k E)"
    by (simp add: E then_return_trace)
  with commands_take [of k E] plan show ?thesis by simp
qed

lemma main_result_fake: "main u vs a fake_executor [] = (Inr 0, snd (main u vs a fake_executor []))"
proof -
  obtain E where E: "main u vs a = io_then (perform_all E) (io_return 0)"
    using main_straight by blast
  show ?thesis
    by (simp add: E io_then_def io_bind_def io_return_def perform_all_run run_fake)
qed

lemma main_never_raises:
  assumes "\<And>h e. \<not> raises w h e"
  shows "fst (main u vs a w []) = Inr 0" and "commands (snd (main u vs a w [])) = main_plan u vs a"
proof -
  obtain E where E: "main u vs a = io_then (perform_all E) (io_return 0)"
    using main_straight by blast
  have r: "run (raises w) E [] = (Inr (), [] @ E)"
    by (rule run_never) (rule assms)
  show "fst (main u vs a w []) = Inr 0"
    using r by (simp add: E io_then_def io_bind_def io_return_def perform_all_run)
  show "commands (snd (main u vs a w [])) = main_plan u vs a"
    using r by (simp add: main_plan_def E then_return_trace run_fake)
qed

section \<open>Command preprocessing and the package-install helper\<close>

text \<open>
  Claim C10. Preprocessing turns a bare string into its one-element tuple: a string
  \<open>s\<close> and the tuple \<open>(s,)\<close> give the same pair, the command \<open>(s,)\<close> with the printed
  text \<open>s\<close>, so the helpers that preprocess their argument behave the same on both.
\<close>

theorem preprocess_string_is_singleton_tuple:
  "preprocess_cmd_and_print (Str s) = preprocess_cmd_and_print (Tup [s])
   \<and> preprocess_cmd_and_print (Str s) = ([s], s)
   \<and> execute_cmd (Str s) cwd = execute_cmd (Tup [s]) cwd
   \<and> run_python (Str s) cwd = run_python (Tup [s]) cwd
   \<and> sudo_apt_install (Str s) = sudo_apt_install (Tup [s])"
  by (simp add: execute_cmd_def run_python_def sudo_apt_install_def)

text \<open>
  What \<open>join\<close> and \<open>center\<close> compute, in terms of the list library alone: the joined
  text is the first string followed by every other string with the separator in front;
  the centred text is the string between two runs of spaces, and at width 79 the left
  run takes the odd space.
\<close>

lemma join_concat:
  "join sep xs = (case xs of [] \<Rightarrow> [] | x # ys \<Rightarrow> x @ concat (map (\<lambda>y. sep @ y) ys))"
  by (induction sep xs rule: join.induct) simp_all

lemma join_spaces: "join '' '' (p # ps) = p @ concat (map (\<lambda>q. CHR '' '' # q) ps)"
  by (induction ps arbitrary: p) simp_all

lemma center_pads:
  "center s width =
     replicate ((width - length s) div 2 + (if odd (width - length s) \<and> odd width then 1 else 0))
       CHR '' ''
     @ s
     @ replicate ((width - length s)
         - ((width - length s) div 2 + (if odd (width - length s) \<and> odd width then 1 else 0)))
       CHR '' ''"
  by (simp add: center_def Let_def)

lemma center_79:
  "center s 79 =
     replicate ((79 - length s + 1) div 2) CHR '' '' @ s @ replicate ((79 - length s) div 2) CHR '' ''"
proof -
  have l: "(79 - length s) div 2 + (if odd (79 - length s) \<and> odd (79::nat) then 1 else 0)
      = (79 - length s + 1) div 2"
    by (cases "odd (79 - length s)") (auto elim: oddE)
  have r: "(79 - length s) - (79 - length s + 1) div 2 = (79 - length s) div 2"
    by linarith
  show ?thesis
    by (simp only: center_pads [of s 79] l r)
qed

lemma length_center: "length (center s width) = max width (length s)"
  by (auto simp add: center_def Let_def)

text \<open>
  Claim C7. For a package argument that is a string or a tuple of strings, the
  package-install helper writes the banner and then constructs exactly the command
  \<open>sudo apt install <pkg...> -y\<close>: the packages spliced between \<open>install\<close> and the
  trailing \<open>-y\<close>. The banner is a line of 79 equals signs, the text \<open>sudo apt install\<close>
  followed by the package names separated by single spaces, padded with spaces to 79
  characters (the left side taking the odd space; a longer text is written as it is),
  and a second line of equals signs followed by an empty line. This holds in every world
  and after every history. For the packages \<open>vim\<close> and \<open>git\<close> the text stands between 28
  and 27 spaces.
\<close>

theorem sudo_apt_install_command:
  "(let t = ''sudo apt install '' @ pkg; marg = 79 - length t in
     snd (sudo_apt_install (Str pkg) w h) =
       h @ [Print (replicate 79 CHR ''='' @ [CHR 0x0A]),
            Print (replicate ((marg + 1) div 2) CHR '' '' @ t @ replicate (marg div 2) CHR '' ''
                   @ [CHR 0x0A]),
            Print (replicate 79 CHR ''='' @ [CHR 0x0A, CHR 0x0A]),
            Run ([''sudo'', ''apt'', ''install''] @ [pkg] @ [''-y'']) None])
   \<and> (let t = ''sudo apt install ''
               @ (case pkgs of [] \<Rightarrow> [] | p # ps \<Rightarrow> p @ concat (map (\<lambda>q. CHR '' '' # q) ps));
           marg = 79 - length t in
     snd (sudo_apt_install (Tup pkgs) w h) =
       h @ [Print (replicate 79 CHR ''='' @ [CHR 0x0A]),
            Print (replicate ((marg + 1) div 2) CHR '' '' @ t @ replicate (marg div 2) CHR '' ''
                   @ [CHR 0x0A]),
            Print (replicate 79 CHR ''='' @ [CHR 0x0A, CHR 0x0A]),
            Run ([''sudo'', ''apt'', ''install''] @ pkgs @ [''-y'']) None])
   \<and> snd (sudo_apt_install (Tup [''vim'', ''git'']) w h) =
       h @ [Print (replicate 79 CHR ''='' @ [CHR 0x0A]),
            Print (''                            sudo apt install vim git''
                   @ ''                           '' @ [CHR 0x0A]),
            Print (replicate 79 CHR ''='' @ [CHR 0x0A, CHR 0x0A]),
            Run [''sudo'', ''apt'', ''install'', ''vim'', ''git'', ''-y''] None]"
proof -
  have ev: "\<And>c. snd (sudo_apt_install c w h) =
      h @ [Print (replicate 79 CHR ''='' @ [CHR 0x0A]),
           Print (center (''sudo apt install '' @ snd (preprocess_cmd_and_print c)) 79 @ [CHR 0x0A]),
           Print (replicate 79 CHR ''='' @ [CHR 0x0A, CHR 0x0A]),
           Run ([''sudo'', ''apt'', ''install''] @ fst (preprocess_cmd_and_print c) @ [''-y'']) None]"
    by (simp add: sudo_apt_install_events perform_all_run banner_def newline_def)
  have a: "let t = ''sudo apt install '' @ pkg; marg = 79 - length t in
     snd (sudo_apt_install (Str pkg) w h) =
       h @ [Print (replicate 79 CHR ''='' @ [CHR 0x0A]),
            Print (replicate ((marg + 1) div 2) CHR '' '' @ t @ replicate (marg div 2) CHR '' ''
                   @ [CHR 0x0A]),
            Print (replicate 79 CHR ''='' @ [CHR 0x0A, CHR 0x0A]),
            Run ([''sudo'', ''apt'', ''install''] @ [pkg] @ [''-y'']) None]"
    by (simp only: ev center_79 Let_def preprocess_cmd_and_print.simps fst_conv snd_conv) simp
  have j: "join '' '' pkgs = (case pkgs of [] \<Rightarrow> [] | p # ps \<Rightarrow> p @ concat (map (\<lambda>q. CHR '' '' # q) ps))"
    by (cases pkgs) (simp_all add: join_spaces)
  have b: "let t = ''sudo apt install ''
               @ (case pkgs of [] \<Rightarrow> [] | p # ps \<Rightarrow> p @ concat (map (\<lambda>q. CHR '' '' # q) ps));
           marg = 79 - length t in
     snd (sudo_apt_install (Tup pkgs) w h) =
       h @ [Print (replicate 79 CHR ''='' @ [CHR 0x0A]),
            Print (replicate ((marg + 1) div 2) CHR '' '' @ t @ replicate (marg div 2) CHR '' ''
                   @ [CHR 0x0A]),
            Print (replicate 79 CHR ''='' @ [CHR 0x0A, CHR 0x0A]),
            Run ([''sudo'', ''apt'', ''install''] @ pkgs @ [''-y'']) None]"
    by (simp only: ev center_79 Let_def preprocess_cmd_and_print.simps fst_conv snd_conv j) simp
  have c: "snd (sudo_apt_install (Tup [''vim'', ''git'']) w h) =
       h @ [Print (replicate 79 CHR ''='' @ [CHR 0x0A]),
            Print (''                            sudo apt install vim git''
                   @ ''                           '' @ [CHR 0x0A]),
            Print (replicate 79 CHR ''='' @ [CHR 0x0A, CHR 0x0A]),
            Run [''sudo'', ''apt'', ''install'', ''vim'', ''git'', ''-y''] None]"
  proof -
    have l: "replicate 28 CHR '' '' = ''                            ''"
      by (simp add: eval_nat_numeral)
    have r: "replicate 27 CHR '' '' = ''                           ''"
      by (simp add: eval_nat_numeral)
    show ?thesis
      by (simp add: ev center_def Let_def l r)
  qed
  from a b c show ?thesis by blast
qed

section \<open>The repository descriptor\<close>

text \<open>
  Claim C3, as stated, at a destination that is set to the empty string: the clone
  command is not the four-element command ending in the destination; the truth test of
  the code sends the empty string down the branch of \<open>None\<close>, and the command has three
  elements.
\<close>

theorem clone_cmd_empty_destination:
  "get_clone_cmd \<lparr>owner = ''o'', repo = ''r'', destination = Some []\<rparr>
     \<noteq> [''git'', ''clone'', ''git@github.com:o/r'', []]
   \<and> get_clone_cmd \<lparr>owner = ''o'', repo = ''r'', destination = Some []\<rparr>
     = [''git'', ''clone'', ''git@github.com:o/r'']"
  by (simp add: get_clone_cmd_def truthy_def Repo_str_def)

text \<open>
  Claim C3, amended. For every repository descriptor: when the destination is a
  non-empty string, the clone command is the four elements \<open>git\<close>, \<open>clone\<close>,
  \<open>git@github.com:owner/repo\<close> and the destination, and the log line ends in
  \<open>to <destination>\<close>; when the destination is \<open>None\<close> or the empty string, the clone
  command is the first three elements alone and the log line does not mention a
  destination. Cloning prints the banner of that log line and runs that command.
\<close>

theorem clone_cmd_by_destination:
  "get_clone_cmd r =
     (case destination r of
        None \<Rightarrow> [''git'', ''clone'', ''git@github.com:'' @ owner r @ ''/'' @ repo r]
      | Some d \<Rightarrow>
          if d = [] then [''git'', ''clone'', ''git@github.com:'' @ owner r @ ''/'' @ repo r]
          else [''git'', ''clone'', ''git@github.com:'' @ owner r @ ''/'' @ repo r, d])
   \<and> get_print_line r =
     (case destination r of
        None \<Rightarrow> ''cloning repo '' @ owner r @ ''/'' @ repo r
      | Some d \<Rightarrow>
          if d = [] then ''cloning repo '' @ owner r @ ''/'' @ repo r
          else ''cloning repo '' @ owner r @ ''/'' @ repo r @ '' to '' @ d)
   \<and> snd (clone_github_repo r w h) = h @ banner (get_print_line r) @ [Run (get_clone_cmd r) None]"
  apply (intro conjI)
    apply (simp add: get_clone_cmd_def truthy_def Repo_str_def split: option.splits)
   apply (simp add: get_print_line_def truthy_def Repo_str_def split: option.splits)
  apply (simp add: clone_github_repo_events perform_all_run run_append banner_def split: prod.splits)
  done

text \<open>
  Claim C9. For every repository descriptor the clone command has a third element, and
  it is exactly \<open>git@github.com:\<close> followed by \<open>owner/repo\<close>: the SSH form, never a URL
  that begins with \<open>https://\<close>. The first two elements are \<open>git clone\<close>.
\<close>

theorem clone_url_is_ssh:
  "2 < length (get_clone_cmd r)
   \<and> get_clone_cmd r ! 2 = ''git@github.com:'' @ owner r @ ''/'' @ repo r
   \<and> take 8 (get_clone_cmd r ! 2) \<noteq> ''https://''
   \<and> take 2 (get_clone_cmd r) = [''git'', ''clone'']"
  by (simp add: get_clone_cmd_def Repo_str_def)

section \<open>The command plan of main\<close>

lemmas block_defs = cleanup_cmds_def update_cmds_def git_cmds_def vim_cmds_def
  vim_removal_cmds_def toolchain_cmds_def venv_cmds_def venv_removal_cmds_def ppa_cmds_def
  guest_cmd_def apt_install_def python_install_def

text \<open>
  Claim C1, as stated, with no flag set and an empty version list: the plan is not the
  claimed sequence. After the virtualenv block the claim has one interpreter install for
  each entry of the list, here none; the code first installs
  \<open>software-properties-common\<close> and registers the package archive, two commands that
  belong to none of the eight steps as the claim words them.
\<close>

theorem plan_differs_from_claimed_sequence:
  "main_plan ''siqube'' [] \<lparr>install_guest_edition = False, testing = False, clean_up = False\<rparr>
     \<noteq> claimed_plan ''siqube'' [] \<lparr>install_guest_edition = False, testing = False, clean_up = False\<rparr>
   \<and> main_plan ''siqube'' [] \<lparr>install_guest_edition = False, testing = False, clean_up = False\<rparr>
     = claimed_plan ''siqube'' [] \<lparr>install_guest_edition = False, testing = False, clean_up = False\<rparr>
       @ [Run [''sudo'', ''apt'', ''install'', ''software-properties-common'', ''-y''] None,
          Run [''sudo'', ''add-apt-repository'', ''ppa:deadsnakes/ppa'', ''-y''] None]"
  by (simp add: main_plan_blocks claimed_plan_def editor_block_def virtualenv_block_def
      ppa_cmds_def apt_install_def)

text \<open>
  Claim C1, amended. For every user name, version list and combination of the three
  flags, the command plan of \<open>main\<close> is, in this order and with no other command:
  (1) if clean-up is set, the deletion of prior install artifacts; (2) the apt
  upgrade and update pair; (3) the global git identity; (4) the editor block, ending in
  its removal commands when testing is set; (5) the baseline toolchain installs; (6) the
  virtualenv block, ending in its removal commands when testing is set; (7) the install
  of \<open>software-properties-common\<close> and the registration of the package archive,
  followed by one interpreter install for each entry of the version list; (8) if
  install-guest-edition is set, the guest-additions script.
\<close>

theorem main_plan_sequence:
  "main_plan u vs a =
     (if clean_up a then cleanup_cmds u else [])
     @ update_cmds
     @ git_cmds
     @ editor_block u (testing a)
     @ toolchain_cmds
     @ virtualenv_block u (testing a)
     @ (ppa_cmds @ map python_install vs)
     @ (if install_guest_edition a then [guest_cmd u] else [])"
  by (simp add: main_plan_blocks editor_block_def virtualenv_block_def)

text \<open>
  Claim C2. Two runs that differ in one flag have plans that differ by that flag's
  blocks alone. Setting clean-up puts the artifact-deletion block in front of the
  otherwise unchanged plan; setting install-guest-edition puts the guest-additions
  command behind it; setting testing inserts the two removal blocks, one after the
  editor block and one after the virtualenv block, between parts \<open>pre\<close>, \<open>mid\<close> and
  \<open>post\<close> that do not depend on the testing flag.
\<close>

theorem flag_toggles_only_its_block:
  "main_plan u vs (a\<lparr>clean_up := True\<rparr>) = cleanup_cmds u @ main_plan u vs (a\<lparr>clean_up := False\<rparr>)
   \<and> main_plan u vs (a\<lparr>install_guest_edition := True\<rparr>)
       = main_plan u vs (a\<lparr>install_guest_edition := False\<rparr>) @ [guest_cmd u]
   \<and> (let pre = (if clean_up a then cleanup_cmds u else []) @ update_cmds @ git_cmds @ vim_cmds u;
           mid = toolchain_cmds @ venv_cmds u;
           post = ppa_cmds @ map python_install vs
                  @ (if install_guest_edition a then [guest_cmd u] else [])
       in main_plan u vs (a\<lparr>testing := False\<rparr>) = pre @ mid @ post
          \<and> main_plan u vs (a\<lparr>testing := True\<rparr>)
              = pre @ vim_removal_cmds u @ mid @ venv_removal_cmds u @ post)"
  by (simp add: main_plan_blocks Let_def)

text \<open>
  Claim C4. For every list of version strings, the plan is the plan of the empty list
  (without the guest-additions command), then exactly one command
  \<open>sudo apt install python<version> -y\<close> for each entry, in the order of the list, then
  the guest-additions command if its flag is set. The loop alone issues exactly these
  commands.
\<close>

theorem one_install_per_version:
  "main_plan u vs a =
     main_plan u [] (a\<lparr>install_guest_edition := False\<rparr>)
     @ map (\<lambda>v. Run [''sudo'', ''apt'', ''install'', ''python'' @ v, ''-y''] None) vs
     @ (if install_guest_edition a then [guest_cmd u] else [])
   \<and> commands (snd (io_for vs (\<lambda>v. sudo_apt_install (Str (''python'' @ v))) fake_executor []))
     = map (\<lambda>v. Run [''sudo'', ''apt'', ''install'', ''python'' @ v, ''-y''] None) vs"
  apply (rule conjI)
   apply (simp add: main_plan_blocks python_install_def)
  apply (simp add: sudo_apt_install_events io_for_perform_all perform_all_run run_fake
      commands_concat_steps)
  done

text \<open>
  Claim C5. The command runner, every helper that launches a process and \<open>main\<close> as a
  whole do not depend on the exit status of the processes they launch: replacing the
  exit statuses of a world by any others changes neither the events issued nor the
  value returned.
\<close>

theorem exit_status_is_ignored:
  "execute_cmd c cwd (w\<lparr>returncode := rc\<rparr>) h = execute_cmd c cwd w h
   \<and> sudo_apt_install c (w\<lparr>returncode := rc\<rparr>) h = sudo_apt_install c w h
   \<and> sudo_bash_cmd s (w\<lparr>returncode := rc\<rparr>) h = sudo_bash_cmd s w h
   \<and> clone_github_repo r (w\<lparr>returncode := rc\<rparr>) h = clone_github_repo r w h
   \<and> run_python c cwd (w\<lparr>returncode := rc\<rparr>) h = run_python c cwd w h
   \<and> main u vs a (w\<lparr>returncode := rc\<rparr>) h = main u vs a w h"
proof -
  obtain E where E: "main u vs a = io_then (perform_all E) (io_return 0)"
    using main_straight by blast
  have "main u vs a (w\<lparr>returncode := rc\<rparr>) h = main u vs a w h"
    by (simp add: E io_then_def io_bind_def io_return_def perform_all_run)
  then show ?thesis
    by (simp add: helper_events perform_all_run)
qed

section \<open>The guest-additions installer\<close>

lemma guest_not_in_base_plan:
  "guest_cmd u \<notin> set (main_plan u vs (a\<lparr>install_guest_edition := False\<rparr>))"
  by (auto simp add: main_plan_blocks block_defs)

lemma plan_guest_split:
  "main_plan u vs a = main_plan u vs (a\<lparr>install_guest_edition := False\<rparr>)
     @ (if install_guest_edition a then [guest_cmd u] else [])"
  by (simp add: main_plan_blocks)

text \<open>
  Claim C8. The guest-additions installer is in the command plan if and only if the
  install-guest-edition flag is set; when the flag is set, the installer is the last
  command of the plan and occurs once. In every world, a run that reaches the installer
  has the flag set and issues no command after it.
\<close>

theorem guest_additions_iff_flag_and_last:
  "(guest_cmd u \<in> set (main_plan u vs a)) = install_guest_edition a
   \<and> (install_guest_edition a \<longrightarrow>
        last (main_plan u vs a) = guest_cmd u
        \<and> count_list (main_plan u vs a) (guest_cmd u) = 1)
   \<and> (guest_cmd u \<in> set (commands (snd (main u vs a w []))) \<longrightarrow>
        install_guest_edition a
        \<and> last (commands (snd (main u vs a w []))) = guest_cmd u)"
proof -
  define base where "base = main_plan u vs (a\<lparr>install_guest_edition := False\<rparr>)"
  have notin: "guest_cmd u \<notin> set base"
    unfolding base_def by (rule guest_not_in_base_plan)
  have split: "main_plan u vs a = base @ (if install_guest_edition a then [guest_cmd u] else [])"
    unfolding base_def by (rule plan_guest_split)
  have iff: "(guest_cmd u \<in> set (main_plan u vs a)) = install_guest_edition a"
    using notin by (simp add: split)
  have lst: "install_guest_edition a \<longrightarrow>
      last (main_plan u vs a) = guest_cmd u \<and> count_list (main_plan u vs a) (guest_cmd u) = 1"
    using notin by (simp add: split)
  have any: "guest_cmd u \<in> set (commands (snd (main u vs a w []))) \<longrightarrow>
      install_guest_edition a \<and> last (commands (snd (main u vs a w []))) = guest_cmd u"
  proof
    assume g: "guest_cmd u \<in> set (commands (snd (main u vs a w [])))"
    obtain j where j: "commands (snd (main u vs a w [])) = take j (main_plan u vs a)"
      using main_trace_prefix by blast
    from g j have in_take: "guest_cmd u \<in> set (take j (main_plan u vs a))" by simp
    then have "guest_cmd u \<in> set (main_plan u vs a)" by (rule in_set_takeD)
    with iff have flag: "install_guest_edition a" by simp
    have "\<not> j \<le> length base"
    proof
      assume "j \<le> length base"
      then have "take j (main_plan u vs a) = take j base" by (simp add: split)
      with in_take have "guest_cmd u \<in> set (take j base)" by simp
      then have "guest_cmd u \<in> set base" by (rule in_set_takeD)
      with notin show False by simp
    qed
    then have "take j (main_plan u vs a) = main_plan u vs a" using flag by (simp add: split)
    with j lst flag show "install_guest_edition a \<and> last (commands (snd (main u vs a w []))) = guest_cmd u"
      by simp
  qed
  from iff lst any show ?thesis by blast
qed

text \<open>
  The claim at a concrete run: user \<open>siqube\<close>, one version, the flag set.
\<close>

theorem guest_additions_witness:
  "install_guest_edition \<lparr>install_guest_edition = True, testing = False, clean_up = False\<rparr>
   \<and> guest_cmd ''siqube'' \<in> set (commands (snd (main ''siqube'' [''3.9'']
        \<lparr>install_guest_edition = True, testing = False, clean_up = False\<rparr> fake_executor [])))
   \<and> last (main_plan ''siqube'' [''3.9'']
        \<lparr>install_guest_edition = True, testing = False, clean_up = False\<rparr>) = guest_cmd ''siqube''
   \<and> last (commands (snd (main ''siqube'' [''3.9'']
        \<lparr>install_guest_edition = True, testing = False, clean_up = False\<rparr> fake_executor [])))
      = guest_cmd ''siqube''"
  using guest_additions_iff_flag_and_last [of "''siqube''" "[''3.9'']"
      "\<lparr>install_guest_edition = True, testing = False, clean_up = False\<rparr>" fake_executor]
  by (simp add: main_plan_def)

section \<open>Testing mode\<close>

text \<open>
  Claim C6, as stated, at a testing run for user \<open>siqube\<close> with one version: the
  package \<open>vim\<close> is installed and no step of the run uninstalls a package, so the run
  leaves what it installed.
\<close>

theorem testing_run_keeps_packages:
  "apt_install ''vim'' \<in> set (main_plan ''siqube'' [''3.9'']
       \<lparr>install_guest_edition = False, testing = True, clean_up = False\<rparr>)
   \<and> filter uninstalls (main_plan ''siqube'' [''3.9'']
       \<lparr>install_guest_edition = False, testing = True, clean_up = False\<rparr>) = []"
  by (simp add: main_plan_blocks block_defs uninstalls_def USER_HOME_def)

lemma filter_uninstalls_python: "filter uninstalls (map python_install vs) = []"
  by (induction vs) (simp_all add: python_install_def uninstalls_def)

text \<open>
  Claim C6, amended. When the testing flag is set, the editor block is followed at once
  by the removal of \<open>~/.vim\<close> and \<open>~/.vimrc\<close>, and the virtualenv block is followed at
  once by the removal of \<open>~/opt\<close>, \<open>/tmp/virtualenv.pyz\<close> and \<open>/bin/virtualenv\<close>; the
  packages installed through apt are not uninstalled by any step.
\<close>

theorem testing_removes_after_each_block:
  "main_plan u vs (a\<lparr>testing := True\<rparr>) =
     (if clean_up a then cleanup_cmds u else [])
     @ update_cmds @ git_cmds
     @ vim_cmds u @ vim_removal_cmds u
     @ toolchain_cmds
     @ venv_cmds u @ venv_removal_cmds u
     @ ppa_cmds @ map python_install vs
     @ (if install_guest_edition a then [guest_cmd u] else [])
   \<and> concat (map deleted_paths (vim_removal_cmds u))
       = [USER_HOME u @ ''/.vim'', USER_HOME u @ ''/.vimrc'']
   \<and> concat (map deleted_paths (venv_removal_cmds u))
       = [USER_HOME u @ ''/opt'', ''/tmp/virtualenv.pyz'', ''/bin/virtualenv'']
   \<and> filter uninstalls (main_plan u vs (a\<lparr>testing := True\<rparr>)) = []"
  apply (intro conjI)
     apply (simp add: main_plan_blocks)
    apply (simp add: vim_removal_cmds_def USER_HOME_def)
   apply (simp add: venv_removal_cmds_def USER_HOME_def)
  apply (simp add: main_plan_blocks filter_uninstalls_python)
  apply (simp add: block_defs uninstalls_def USER_HOME_def)
  done

lemma removes_python_install: "filter (removes f) (map python_install vs) = []"
  by (induction vs) (simp_all add: python_install_def removes_def)

text \<open>
  The clean-up block deletes \<open>~/.vimrc_cl_install\<close>, the file the editor block moves
  into the home directory; a testing run without clean-up moves the file there and no
  step of the run removes it or a directory above it.
\<close>

lemma testing_run_keeps_vimrc_cl_install:
  "Move ''scratch/.vimrc_cl_install'' (USER_HOME u)
     \<in> set (main_plan u vs (a\<lparr>testing := True, clean_up := False\<rparr>))
   \<and> filter (removes (USER_HOME u @ ''/.vimrc_cl_install''))
        (main_plan u vs (a\<lparr>testing := True, clean_up := False\<rparr>)) = []
   \<and> filter (removes (USER_HOME u @ ''/.vimrc_cl_install'')) (cleanup_cmds u)
       = [Remove (USER_HOME u @ ''/.vimrc_cl_install'')]"
  apply (intro conjI)
    apply (simp add: main_plan_blocks vim_cmds_def)
   apply (simp add: main_plan_blocks removes_python_install)
   apply (simp add: block_defs removes_def USER_HOME_def)
  apply (simp add: block_defs removes_def USER_HOME_def)
  done

end
